theory Spec2Isabelle
  imports Complex_Main "HOL-Library.Sublist"
begin

section \<open>Run-time values\<close>

text \<open>
  The TypeScript types of \<^verbatim>\<open>types.ts\<close> are erased at run time. What
  \<^verbatim>\<open>JSON.parse\<close> returns has type \<^verbatim>\<open>any\<close>, so the three state variables that are
  initialised from \<^verbatim>\<open>localStorage\<close> (packs, selectedPackIds, settings) hold arbitrary
  JavaScript values. They are modelled as trees; an object is the list of its own
  properties in enumeration order, and the value of a property is a value, not a
  reference (the fields of \<^verbatim>\<open>CorrectionSettings\<close> are primitive, and no code of the
  component writes into an object). A number is modelled by the real it denotes; the
  component does no arithmetic on these values.
\<close>

datatype jsval =
    Undefined
  | Null
  | Bool bool
  | Num real
  | Str string
  | Arr "jsval list"
  | Obj "(string \<times> jsval) list"

text \<open>
  The exceptions: of an access to a storage that is blocked or full, of
  \<^verbatim>\<open>JSON.parse\<close>, of an expression, and any exception thrown while React renders.
\<close>

datatype error = SecurityError | QuotaExceededError | SyntaxError | TypeError | RenderError

text \<open>The string literal unions of \<^verbatim>\<open>types.ts\<close>: the values each type admits.\<close>

definition CorrectionMode :: "string list" where
  "CorrectionMode = [''Proportion (Mode A)'', ''Conditioned (Mode B)'']"

definition AngleTag :: "string list" where
  "AngleTag = [''Front'', ''3/4 View'', ''Profile'', ''Upshot'', ''Downshot'', ''Generic'']"

definition AutoCorrectionScope :: "string list" where
  "AutoCorrectionScope =
     [''Full Image'', ''Face Priority'', ''Clothing Priority'', ''Hands Priority'']"

datatype ViewMode = Before | After | Overlay

datatype Tab = Editor | Library

record ReferenceImage =
  ri_id :: string
  ri_packId :: string
  ri_data :: string
  ri_tags :: "string list"
  ri_similarity :: "real option"

record CorrectionMetrics =
  mask_coverage :: real
  denoise_used :: real
  diff_in_mask :: real
  diff_outside_mask :: real
  absolute_line_fidelity :: bool

text \<open>
  An \<^verbatim>\<open>EditSession\<close>. Its \<^verbatim>\<open>settings\<close> field holds a reference to an object:
  the address of a cell of the object store of the state below. The \<^verbatim>\<open>id\<close> is the
  decimal rendering of a clock reading.
\<close>

record EditSession =
  es_id :: string
  es_originalImage :: string
  es_resultImage :: string
  es_settings :: nat
  es_timestamp :: nat
  es_metrics :: CorrectionMetrics

subsection \<open>Property access, spread and decimal rendering\<close>

text \<open>The decimal digit of a number below 10.\<close>

definition digit :: "nat \<Rightarrow> char" where
  "digit n = ''0123456789'' ! n"

text \<open>\<^verbatim>\<open>n.toString()\<close> for a non-negative integer.\<close>

fun decimal :: "nat \<Rightarrow> string" where
  "decimal n = (if n < 10 then [digit n] else decimal (n div 10) @ [digit (n mod 10)])"

text \<open>
  The own enumerable properties that a spread \<^verbatim>\<open>{ ...v }\<close> copies: those of an
  object, the indexed elements of an array or of a string, none of any other value.
\<close>

fun ownProps :: "jsval \<Rightarrow> (string \<times> jsval) list" where
  "ownProps (Obj kvs) = kvs"
| "ownProps (Arr xs) = zip (map decimal [0..<length xs]) xs"
| "ownProps (Str cs) = zip (map decimal [0..<length cs]) (map (\<lambda>c. Str [c]) cs)"
| "ownProps v = []"

text \<open>
  \<^verbatim>\<open>{ ...o, k: v }\<close>: a property that the spread already produced keeps its place
  and takes the new value, a new one comes last.
\<close>

fun setProp :: "(string \<times> jsval) list \<Rightarrow> string \<Rightarrow> jsval \<Rightarrow> (string \<times> jsval) list" where
  "setProp [] k v = [(k, v)]"
| "setProp ((k', v') # kvs) k v =
     (if k' = k then (k, v) # kvs else (k', v') # setProp kvs k v)"

text \<open>
  \<^verbatim>\<open>v.k\<close> for a key that no prototype defines: a TypeError on \<^verbatim>\<open>null\<close> and
  \<^verbatim>\<open>undefined\<close>, the property of an object when it has one, \<^verbatim>\<open>undefined\<close> otherwise.
\<close>

fun getProp :: "jsval \<Rightarrow> string \<Rightarrow> error + jsval" where
  "getProp Undefined k = Inl TypeError"
| "getProp Null k = Inl TypeError"
| "getProp (Obj kvs) k = (case map_of kvs k of None \<Rightarrow> Inr Undefined | Some v \<Rightarrow> Inr v)"
| "getProp v k = Inr Undefined"

text \<open>\<^verbatim>\<open>string | null\<close> in a condition: \<^verbatim>\<open>null\<close> and the empty string are falsy.\<close>

definition truthy :: "string option \<Rightarrow> bool" where
  "truthy v = (case v of None \<Rightarrow> False | Some s \<Rightarrow> s \<noteq> [])"

section \<open>Persisted records\<close>

text \<open>
  A stored item is a string. The component only ever tests it for truthiness and hands
  it to \<^verbatim>\<open>JSON.parse\<close>, so an item is represented by what these two do with it:
  \<open>Empty\<close> is the empty string (falsy), \<open>Malformed\<close> a non-empty string on which
  \<^verbatim>\<open>JSON.parse\<close> throws a SyntaxError, \<open>Json v\<close> a text that \<^verbatim>\<open>JSON.parse\<close> turns into
  \<open>v\<close>. \<open>Unavailable\<close> is a storage whose every access throws.
\<close>

datatype item = Empty | Malformed | Json jsval

datatype localStorage = Unavailable | Available "string \<Rightarrow> item option"

definition getItem :: "localStorage \<Rightarrow> string \<Rightarrow> error + item option" where
  "getItem ls k = (case ls of Unavailable \<Rightarrow> Inl SecurityError | Available m \<Rightarrow> Inr (m k))"

fun JSON_parse :: "item \<Rightarrow> error + jsval" where
  "JSON_parse Empty = Inl SyntaxError"
| "JSON_parse Malformed = Inl SyntaxError"
| "JSON_parse (Json v) = Inr v"

text \<open>
  The body shared by the three state initialisers:
  \<^verbatim>\<open>try { const saved = localStorage.getItem(k); if (saved) return JSON.parse(saved); } catch (e) {}\<close>.
  The result is \<open>Some v\<close> when the block returns \<open>v\<close>, and \<open>None\<close> when control
  leaves it otherwise (nothing saved, a falsy item, or an exception that the empty
  handler swallows).
\<close>

definition trySaved :: "localStorage \<Rightarrow> string \<Rightarrow> jsval option" where
  "trySaved ls k =
     (case getItem ls k of
        Inl e \<Rightarrow> None
      | Inr None \<Rightarrow> None
      | Inr (Some Empty) \<Rightarrow> None
      | Inr (Some saved) \<Rightarrow> (case JSON_parse saved of Inl e \<Rightarrow> None | Inr v \<Rightarrow> Some v))"

definition seedPacks :: "nat \<Rightarrow> nat \<Rightarrow> jsval" where
  "seedPacks t1 t2 = Arr
     [Obj [(''id'', Str ''1''), (''name'', Str ''Standard Anime Eyes''),
           (''description'', Str ''Clean eye references.''), (''images'', Arr []),
           (''createdAt'', Num (real t1))],
      Obj [(''id'', Str ''2''), (''name'', Str ''Profile Jawlines''),
           (''description'', Str ''Sharp chin silhouttes.''), (''images'', Arr []),
           (''createdAt'', Num (real t2))]]"

text \<open>Initialiser of \<^verbatim>\<open>packs\<close>; \<open>t1\<close> and \<open>t2\<close> are the two readings of the clock.\<close>

definition initPacks :: "localStorage \<Rightarrow> nat \<Rightarrow> nat \<Rightarrow> jsval" where
  "initPacks ls t1 t2 =
     (case trySaved ls ''art_packs'' of Some v \<Rightarrow> v | None \<Rightarrow> seedPacks t1 t2)"

text \<open>
  \<^verbatim>\<open>packs.map(p => p.id)\<close>, which stands after the try block of the initialiser of
  \<^verbatim>\<open>selectedPackIds\<close>, so that its TypeError is not caught: on anything but an array
  (\<^verbatim>\<open>map\<close> is then not a function), and on an array with a \<^verbatim>\<open>null\<close> element.
\<close>

fun mapIds :: "jsval list \<Rightarrow> error + jsval list" where
  "mapIds [] = Inr []"
| "mapIds (p # ps) =
     (case getProp p ''id'' of
        Inl e \<Rightarrow> Inl e
      | Inr i \<Rightarrow> (case mapIds ps of Inl e \<Rightarrow> Inl e | Inr is \<Rightarrow> Inr (i # is)))"

fun packIds :: "jsval \<Rightarrow> error + jsval" where
  "packIds (Arr ps) = (case mapIds ps of Inl e \<Rightarrow> Inl e | Inr is \<Rightarrow> Inr (Arr is))"
| "packIds v = Inl TypeError"

definition initSelectedPackIds :: "localStorage \<Rightarrow> jsval \<Rightarrow> error + jsval" where
  "initSelectedPackIds ls packs =
     (case trySaved ls ''art_selected_packs'' of Some v \<Rightarrow> Inr v | None \<Rightarrow> packIds packs)"

definition defaultSettings :: jsval where
  "defaultSettings = Obj
     [(''strength'', Num 50), (''linePreservation'', Num 85),
      (''mode'', Str ''Proportion (Mode A)''), (''angleTag'', Str ''3/4 View''),
      (''scope'', Str ''Full Image''), (''absoluteLineFidelity'', Bool True)]"

definition initSettings :: "localStorage \<Rightarrow> jsval" where
  "initSettings ls =
     (case trySaved ls ''art_settings_v6'' of Some v \<Rightarrow> v | None \<Rightarrow> defaultSettings)"

section \<open>The state of the App component\<close>

text \<open>
  One field per \<^verbatim>\<open>useState\<close> of the component, in the order of the source, and two
  fields of the model. \<open>store\<close> is the object store: the cells hold the settings objects
  allocated so far, \<open>settings\<close> and the \<open>es_settings\<close> of a session are addresses into
  it, and an object literal allocates the next cell. \<open>pending\<close> holds what the
  suspended call of \<^verbatim>\<open>handleRunCorrection\<close> has captured, while the provider works.
\<close>

record request =
  rq_originalImage :: string
  rq_settings :: nat
  rq_retrievedRefs :: "ReferenceImage list"
  rq_imageDimensions :: "nat \<times> nat"

record app =
  activeTab :: Tab
  originalImage :: "string option"
  correctedImage :: "string option"
  imageDimensions :: "nat \<times> nat"
  isProcessing :: bool
  errorMsg :: "string option"
  viewMode :: ViewMode
  history :: "EditSession list"
  packs :: jsval
  retrievedRefs :: "ReferenceImage list"
  selectedPackIds :: jsval
  settings :: nat
  store :: "jsval list"
  pending :: "request option"

text \<open>The value of a cell; an address is never dangling in a state the component reaches.\<close>

definition deref :: "jsval list \<Rightarrow> nat \<Rightarrow> jsval" where
  "deref st a = (if a < length st then st ! a else Undefined)"

text \<open>
  The initial values of the state hooks, nothing more: the state that the first render
  starts from. There is none where the initialiser of \<^verbatim>\<open>selectedPackIds\<close> throws.
  What the render and the effects then do is \<open>mountApp\<close> below.
\<close>

definition initApp :: "localStorage \<Rightarrow> nat \<Rightarrow> nat \<Rightarrow> error + app" where
  "initApp ls t1 t2 =
     (let ps = initPacks ls t1 t2 in
      case initSelectedPackIds ls ps of
        Inl e \<Rightarrow> Inl e
      | Inr sel \<Rightarrow> Inr
          \<lparr>activeTab = Editor, originalImage = None, correctedImage = None,
           imageDimensions = (1024, 1024), isProcessing = False, errorMsg = None,
           viewMode = After, history = [], packs = ps, retrievedRefs = [],
           selectedPackIds = sel, settings = 0, store = [initSettings ls],
           pending = None\<rparr>)"

section \<open>The first render and the mount\<close>

text \<open>
  After the initialisers the component body runs on, React builds the tree of the Editor
  tab, and the effects run. Of the expressions of that first render only those that read
  \<^verbatim>\<open>packs\<close>, \<^verbatim>\<open>selectedPackIds\<close> and \<^verbatim>\<open>settings\<close> can throw: the other state is
  the typed initial state (no image, empty history, no references).
\<close>

text \<open>\<^verbatim>\<open>v.length\<close>: the length of an array or a string, else as any other property.\<close>

fun getLength :: "jsval \<Rightarrow> error + jsval" where
  "getLength (Arr xs) = Inr (Num (real (length xs)))"
| "getLength (Str cs) = Inr (Num (real (length cs)))"
| "getLength v = getProp v ''length''"

text \<open>
  Whether a value can be converted to a string, as \<^verbatim>\<open>'' + v\<close> does for a key and React
  does for the \<^verbatim>\<open>value\<close> of a control: an object that has a property
  \<^verbatim>\<open>toString\<close> of its own (from JSON, so not callable) cannot, and an array joins its
  elements.
\<close>

fun stringable :: "jsval \<Rightarrow> bool" and stringables :: "jsval list \<Rightarrow> bool" where
  "stringable (Obj kvs) = (map_of kvs ''toString'' = None)"
| "stringable (Arr xs) = stringables xs"
| "stringable v = True"
| "stringables [] = True"
| "stringables (x # xs) = (stringable x \<and> stringables xs)"

text \<open>
  Whether React accepts a value as a child: it throws on an object (that is not an
  element), and goes through the elements of an array.
\<close>

fun validChild :: "jsval \<Rightarrow> bool" and validChildren :: "jsval list \<Rightarrow> bool" where
  "validChild (Obj kvs) = False"
| "validChild (Arr xs) = validChildren xs"
| "validChild v = True"
| "validChildren [] = True"
| "validChildren (x # xs) = (validChild x \<and> validChildren xs)"

text \<open>
  \<^verbatim>\<open>selectedPackIds.includes(x)\<close> returns: on an array, and on a string when \<open>x\<close> can
  be converted to one; on any other value \<^verbatim>\<open>includes\<close> is not a function.
\<close>

fun includesReturns :: "jsval \<Rightarrow> jsval \<Rightarrow> bool" where
  "includesReturns (Arr xs) x = True"
| "includesReturns (Str cs) x = stringable x"
| "includesReturns v x = False"

text \<open>
  The label of one pack renders: \<^verbatim>\<open>pack.id\<close> (the key, and the argument of
  \<^verbatim>\<open>includes\<close>), the child \<^verbatim>\<open>pack.name\<close> and the child \<^verbatim>\<open>pack.images.length\<close>.
\<close>

definition packRenders :: "jsval \<Rightarrow> jsval \<Rightarrow> bool" where
  "packRenders sel pack =
     (case getProp pack ''id'' of
        Inl e \<Rightarrow> False
      | Inr i \<Rightarrow>
          includesReturns sel i \<and> stringable i
          \<and> (case getProp pack ''name'' of Inl e \<Rightarrow> False | Inr n \<Rightarrow> validChild n)
          \<and> (case getProp pack ''images'' of
                Inl e \<Rightarrow> False
              | Inr im \<Rightarrow> (case getLength im of Inl e \<Rightarrow> False | Inr l \<Rightarrow> validChild l)))"

text \<open>\<^verbatim>\<open>packs.length === 0 ? ... : packs.map(pack => ...)\<close>\<close>

definition packsRender :: "jsval \<Rightarrow> jsval \<Rightarrow> bool" where
  "packsRender sel ps =
     (case getLength ps of
        Inl e \<Rightarrow> False
      | Inr l \<Rightarrow>
          if l = Num 0 then True
          else (case ps of Arr xs \<Rightarrow> list_all (packRenders sel) xs | _ \<Rightarrow> False))"

text \<open>
  No exception is thrown while the first tree is rendered:
  \<^verbatim>\<open>JSON.stringify(packs).length\<close> of the memo; \<^verbatim>\<open>settings.scope\<close>,
  \<^verbatim>\<open>settings.strength\<close> and \<^verbatim>\<open>settings.angleTag\<close> as the \<^verbatim>\<open>value\<close> of a control,
  \<^verbatim>\<open>settings.strength\<close> as a child; the list of the packs.
\<close>

definition renders :: "jsval \<Rightarrow> jsval \<Rightarrow> jsval \<Rightarrow> bool" where
  "renders ps sel st =
     (ps \<noteq> Undefined
      \<and> (case getProp st ''scope'' of Inl e \<Rightarrow> False | Inr v \<Rightarrow> stringable v)
      \<and> (case getProp st ''strength'' of
            Inl e \<Rightarrow> False | Inr v \<Rightarrow> stringable v \<and> validChild v)
      \<and> (case getProp st ''angleTag'' of Inl e \<Rightarrow> False | Inr v \<Rightarrow> stringable v)
      \<and> packsRender sel ps)"

text \<open>
  The effect that persists the three records calls \<^verbatim>\<open>localStorage.setItem\<close> outside
  any try block. It throws on a storage whose accesses throw, and on a storage that has
  no room for the records (\<open>room\<close> is false).
\<close>

definition persist :: "localStorage \<Rightarrow> bool \<Rightarrow> error + unit" where
  "persist ls room =
     (case ls of
        Unavailable \<Rightarrow> Inl SecurityError
      | Available m \<Rightarrow> if room then Inr () else Inl QuotaExceededError)"

text \<open>
  The mount: the initialisers, the first render, the effects. An exception of the
  render or of an effect leaves no component. The retrieval effect does nothing, as
  there is no image yet.
\<close>

definition mountApp :: "localStorage \<Rightarrow> bool \<Rightarrow> nat \<Rightarrow> nat \<Rightarrow> error + app" where
  "mountApp ls room t1 t2 =
     (case initApp ls t1 t2 of
        Inl e \<Rightarrow> Inl e
      | Inr s \<Rightarrow>
          if \<not> renders (packs s) (selectedPackIds s) (deref (store s) (settings s))
          then Inl RenderError
          else (case persist ls room of Inl e \<Rightarrow> Inl e | Inr u \<Rightarrow> Inr s))"

section \<open>Handlers\<close>

text \<open>
  \<^verbatim>\<open>handleFileUpload\<close>. \<open>NoFile\<close>: the input holds no file. \<open>NotLoaded\<close>: the reader or
  the image never fires \<^verbatim>\<open>onload\<close>. \<open>Loaded base64 w h\<close>: the image has loaded, and
  the four setters run.
\<close>

datatype upload = NoFile | NotLoaded | Loaded string nat nat

definition handleFileUpload :: "upload \<Rightarrow> app \<Rightarrow> app" where
  "handleFileUpload u s =
     (case u of
        NoFile \<Rightarrow> s
      | NotLoaded \<Rightarrow> s
      | Loaded base64 w h \<Rightarrow>
          s\<lparr>imageDimensions := (w, h), originalImage := Some base64,
            correctedImage := None, errorMsg := None\<rparr>)"

text \<open>
  \<^verbatim>\<open>handleRunCorrection\<close> up to its \<^verbatim>\<open>await\<close>: the new state, and the call of
  \<^verbatim>\<open>correctArt\<close> it issues, if any. The call carries the values of the render the
  handler was created in.
\<close>

definition handleRunCorrection :: "app \<Rightarrow> app \<times> request option" where
  "handleRunCorrection s =
     (case originalImage s of
        None \<Rightarrow> (s\<lparr>errorMsg := Some ''Upload an image first.''\<rparr>, None)
      | Some img \<Rightarrow>
          if img = [] then (s\<lparr>errorMsg := Some ''Upload an image first.''\<rparr>, None)
          else (s\<lparr>errorMsg := None, isProcessing := True\<rparr>,
                Some \<lparr>rq_originalImage = img, rq_settings = settings s,
                      rq_retrievedRefs = retrievedRefs s,
                      rq_imageDimensions = imageDimensions s\<rparr>))"

text \<open>
  How the awaited call ends: with a result, or with an exception that is or is not an
  instance of \<^verbatim>\<open>CorrectionFailedError\<close> (whose \<^verbatim>\<open>message\<close> is then shown). The
  class and \<^verbatim>\<open>correctArt\<close> are imported from \<^verbatim>\<open>services/gemini\<close>; what the
  provider computes is an input of the model.
\<close>

datatype failure = CorrectionFailedError string | OtherError

datatype outcome = Resolved string CorrectionMetrics | Rejected failure

text \<open>\<^verbatim>\<open>prev => [newSession, ...prev].slice(0, 20)\<close>\<close>

definition appendSession :: "'a \<Rightarrow> 'a list \<Rightarrow> 'a list" where
  "appendSession newSession prev = take 20 (newSession # prev)"

text \<open>
  The object literal \<^verbatim>\<open>newSession\<close>: \<open>rq\<close> is what the call captured, \<open>t1\<close> and
  \<open>t2\<close> are the two readings of the clock. Its \<^verbatim>\<open>settings\<close> is the object that the
  spread \<^verbatim>\<open>{ ...settings }\<close> allocates, at the next free address of the store.
\<close>

definition newSession ::
    "request \<Rightarrow> string \<Rightarrow> CorrectionMetrics \<Rightarrow> nat \<Rightarrow> nat \<Rightarrow> app \<Rightarrow> EditSession" where
  "newSession rq resultImage metrics t1 t2 s =
     \<lparr>es_id = decimal t1, es_originalImage = rq_originalImage rq,
      es_resultImage = resultImage, es_settings = length (store s),
      es_timestamp = t2, es_metrics = metrics\<rparr>"

text \<open>
  \<^verbatim>\<open>handleRunCorrection\<close> from its \<^verbatim>\<open>await\<close> on: the try block after the call, the
  catch and the finally.
\<close>

definition resumeRunCorrection :: "request \<Rightarrow> outcome \<Rightarrow> nat \<Rightarrow> nat \<Rightarrow> app \<Rightarrow> app" where
  "resumeRunCorrection rq out t1 t2 s =
     (case out of
        Resolved resultImage metrics \<Rightarrow>
          s\<lparr>correctedImage := Some resultImage,
            store := store s @ [Obj (ownProps (deref (store s) (rq_settings rq)))],
            history := appendSession (newSession rq resultImage metrics t1 t2 s) (history s),
            viewMode := After,
            isProcessing := False\<rparr>
      | Rejected (CorrectionFailedError message) \<Rightarrow>
          s\<lparr>errorMsg := Some message, isProcessing := False\<rparr>
      | Rejected OtherError \<Rightarrow>
          s\<lparr>errorMsg := Some ''Refinement process interrupted.'', isProcessing := False\<rparr>)"

definition handlePromoteToSource :: "app \<Rightarrow> app" where
  "handlePromoteToSource s =
     (if truthy (correctedImage s)
      then s\<lparr>originalImage := correctedImage s, correctedImage := None,
            viewMode := Before, errorMsg := None\<rparr>
      else s)"

text \<open>\<^verbatim>\<open>clearHistory\<close>; \<open>confirmed\<close> is the answer of \<^verbatim>\<open>window.confirm\<close>.\<close>

definition clearHistory :: "bool \<Rightarrow> app \<Rightarrow> app" where
  "clearHistory confirmed s = (if confirmed then s\<lparr>history := []\<rparr> else s)"

text \<open>The \<^verbatim>\<open>onClick\<close> of a history entry.\<close>

definition replay :: "EditSession \<Rightarrow> app \<Rightarrow> app" where
  "replay session s =
     s\<lparr>correctedImage := Some (es_resultImage session),
       originalImage := Some (es_originalImage session), viewMode := After\<rparr>"

text \<open>\<^verbatim>\<open>setSettings({...settings, k: v})\<close>, the \<^verbatim>\<open>onChange\<close> of the four controls.\<close>

definition setSettings :: "string \<Rightarrow> jsval \<Rightarrow> app \<Rightarrow> app" where
  "setSettings k v s =
     s\<lparr>store := store s @ [Obj (setProp (ownProps (deref (store s) (settings s))) k v)],
       settings := length (store s)\<rparr>"

subsection \<open>What the render tree enables and shows\<close>

text \<open>\<^verbatim>\<open>disabled={mode !== 'Before' && !correctedImage}\<close> of the three view buttons.\<close>

definition viewDisabled :: "ViewMode \<Rightarrow> app \<Rightarrow> bool" where
  "viewDisabled m s = (m \<noteq> Before \<and> \<not> truthy (correctedImage s))"

text \<open>\<^verbatim>\<open>disabled={isProcessing || !originalImage}\<close> of the button that runs a correction.\<close>

definition runDisabled :: "app \<Rightarrow> bool" where
  "runDisabled s = (isProcessing s \<or> \<not> truthy (originalImage s))"

text \<open>
  The main pane: the comparison viewer when \<^verbatim>\<open>correctedImage && viewMode !== 'Before'\<close>,
  else the source image alone, else the placeholder.
\<close>

datatype pane = ComparisonViewer "string option" string ViewMode | SourceImage string | SourceEmpty

definition sourcePane :: "string option \<Rightarrow> pane" where
  "sourcePane src =
     (case src of
        None \<Rightarrow> SourceEmpty
      | Some img \<Rightarrow> if img = [] then SourceEmpty else SourceImage img)"

definition mainPane :: "app \<Rightarrow> pane" where
  "mainPane s =
     (case correctedImage s of
        None \<Rightarrow> sourcePane (originalImage s)
      | Some c \<Rightarrow>
          if c \<noteq> [] \<and> viewMode s \<noteq> Before
          then ComparisonViewer (originalImage s) c (viewMode s)
          else sourcePane (originalImage s))"

text \<open>A click on a view button: a disabled button fires no handler.\<close>

definition clickView :: "ViewMode \<Rightarrow> app \<Rightarrow> app" where
  "clickView m s = (if viewDisabled m s then s else s\<lparr>viewMode := m\<rparr>)"

section \<open>Events\<close>

text \<open>
  What can happen to a mounted component. The controls of the editor exist only while
  the Editor tab is shown; the promote button only while a result exists, the clear
  button only while the history is not empty. The handlers of the Library tab, of the
  pack check boxes and the retrieval effect do nothing but call \<^verbatim>\<open>setPacks\<close>,
  \<^verbatim>\<open>setSelectedPackIds\<close> and \<^verbatim>\<open>setRetrievedRefs\<close>; what they compute is left open, the
  event carries the new value.
\<close>

datatype event =
    ClickTab Tab
  | FileInput upload
  | ClickRun
  | Settled outcome nat nat
  | ClickPromote
  | ClickSave
  | ClickClear bool
  | ClickView ViewMode
  | ClickEntry nat
  | ChangeScope string
  | ChangeStrength int
  | ChangeFidelity bool
  | ChangeAngle string
  | SetPacks jsval
  | SetSelectedPackIds jsval
  | SetRetrievedRefs "ReferenceImage list"

fun step :: "event \<Rightarrow> app \<Rightarrow> app" where
  "step (ClickTab tab) s = s\<lparr>activeTab := tab\<rparr>"
| "step (FileInput u) s = handleFileUpload u s"
| "step ClickRun s =
     (if activeTab s \<noteq> Editor \<or> runDisabled s then s
      else case handleRunCorrection s of (s', call) \<Rightarrow> s'\<lparr>pending := call\<rparr>)"
| "step (Settled out t1 t2) s =
     (case pending s of
        None \<Rightarrow> s
      | Some rq \<Rightarrow> (resumeRunCorrection rq out t1 t2 s)\<lparr>pending := None\<rparr>)"
| "step ClickPromote s =
     (if activeTab s \<noteq> Editor \<or> \<not> truthy (correctedImage s) then s
      else handlePromoteToSource s)"
| "step ClickSave s = s"
| "step (ClickClear confirmed) s =
     (if activeTab s \<noteq> Editor \<or> history s = [] then s else clearHistory confirmed s)"
| "step (ClickView m) s = (if activeTab s \<noteq> Editor then s else clickView m s)"
| "step (ClickEntry i) s =
     (if activeTab s \<noteq> Editor \<or> length (history s) \<le> i then s
      else replay (history s ! i) s)"
| "step (ChangeScope v) s =
     (if activeTab s \<noteq> Editor then s else setSettings ''scope'' (Str v) s)"
| "step (ChangeStrength n) s =
     (if activeTab s \<noteq> Editor then s else setSettings ''strength'' (Num (of_int n)) s)"
| "step (ChangeFidelity b) s =
     (if activeTab s \<noteq> Editor then s else setSettings ''absoluteLineFidelity'' (Bool b) s)"
| "step (ChangeAngle v) s =
     (if activeTab s \<noteq> Editor then s else setSettings ''angleTag'' (Str v) s)"
| "step (SetPacks v) s = s\<lparr>packs := v\<rparr>"
| "step (SetSelectedPackIds v) s = s\<lparr>selectedPackIds := v\<rparr>"
| "step (SetRetrievedRefs refs) s = s\<lparr>retrievedRefs := refs\<rparr>"

text \<open>The state after a sequence of events, the first of the list first.\<close>

definition run :: "event list \<Rightarrow> app \<Rightarrow> app" where
  "run evs s = foldl (\<lambda>s' ev. step ev s') s evs"

text \<open>Every address held by the state is the address of an allocated cell.\<close>

definition allocated :: "app \<Rightarrow> bool" where
  "allocated s =
     (settings s < length (store s)
      \<and> list_all (\<lambda>e. es_settings e < length (store s)) (history s)
      \<and> (case pending s of None \<Rightarrow> True | Some rq \<Rightarrow> rq_settings rq < length (store s)))"

section \<open>The settings model of the specification\<close>

text \<open>
  The ranges and the enumerations that the specification gives for a normalised
  \<^verbatim>\<open>CorrectionSettings\<close>, as predicates on a run-time value.
\<close>

definition numberIn :: "real \<Rightarrow> real \<Rightarrow> jsval \<Rightarrow> string \<Rightarrow> bool" where
  "numberIn lo hi v k =
     (case getProp v k of Inr (Num x) \<Rightarrow> lo \<le> x \<and> x \<le> hi | _ \<Rightarrow> False)"

definition oneOf :: "string list \<Rightarrow> jsval \<Rightarrow> string \<Rightarrow> bool" where
  "oneOf names v k = (case getProp v k of Inr (Str x) \<Rightarrow> x \<in> set names | _ \<Rightarrow> False)"

definition inRanges :: "jsval \<Rightarrow> bool" where
  "inRanges v = (numberIn 1 100 v ''strength'' \<and> numberIn 0 100 v ''linePreservation'')"

definition knownEnums :: "jsval \<Rightarrow> bool" where
  "knownEnums v =
     (oneOf CorrectionMode v ''mode'' \<and> oneOf AngleTag v ''angleTag''
      \<and> oneOf AutoCorrectionScope v ''scope'')"

text \<open>A record is unusable when nothing is returned from the try block that reads it.\<close>

definition unusable :: "localStorage \<Rightarrow> string \<Rightarrow> bool" where
  "unusable ls k =
     (case ls of
        Unavailable \<Rightarrow> True
      | Available m \<Rightarrow> (case m k of None \<Rightarrow> True | Some Empty \<Rightarrow> True
                       | Some Malformed \<Rightarrow> True | Some (Json v) \<Rightarrow> False))"

declare decimal.simps [simp del]

section \<open>Concrete inputs\<close>

text \<open>
  A storage that holds no record, the state of a first visit (with both clock readings
  0), and the metrics of some provider answer. They are the inputs at which theorems
  are instantiated below.
\<close>

definition noRecords :: localStorage where
  "noRecords = Available (\<lambda>k. None)"

definition firstVisit :: app where
  "firstVisit =
     \<lparr>activeTab = Editor, originalImage = None, correctedImage = None,
      imageDimensions = (1024, 1024), isProcessing = False, errorMsg = None,
      viewMode = After, history = [], packs = seedPacks 0 0, retrievedRefs = [],
      selectedPackIds = Arr [Str ''1'', Str ''2''], settings = 0,
      store = [defaultSettings], pending = None\<rparr>"

definition someMetrics :: CorrectionMetrics where
  "someMetrics =
     \<lparr>mask_coverage = 0, denoise_used = 0, diff_in_mask = 0, diff_outside_mask = 0,
      absolute_line_fidelity = True\<rparr>"

text \<open>A storage whose only record is the settings record, or the packs record, \<open>v\<close>.\<close>

definition storedSettings :: "jsval \<Rightarrow> localStorage" where
  "storedSettings v = Available (\<lambda>k. if k = ''art_settings_v6'' then Some (Json v) else None)"

definition storedPacks :: "jsval \<Rightarrow> localStorage" where
  "storedPacks v = Available (\<lambda>k. if k = ''art_packs'' then Some (Json v) else None)"

section \<open>Evaluation of the concrete inputs\<close>

lemma initApp_noRecords: "initApp noRecords 0 0 = Inr firstVisit"
  by (simp add: initApp_def initPacks_def initSelectedPackIds_def initSettings_def
      trySaved_def getItem_def noRecords_def firstVisit_def seedPacks_def)

text \<open>An upload, a click on the run button and a result of the provider.\<close>

lemma refined_state:
  "run [FileInput (Loaded ''data:a'' 4 4), ClickRun, Settled (Resolved ''data:b'' someMetrics) 7 8]
     firstVisit =
   firstVisit
     \<lparr>originalImage := Some ''data:a'', correctedImage := Some ''data:b'',
      imageDimensions := (4, 4),
      history := [\<lparr>es_id = ''7'', es_originalImage = ''data:a'', es_resultImage = ''data:b'',
                   es_settings = 1, es_timestamp = 8, es_metrics = someMetrics\<rparr>],
      store := [defaultSettings, defaultSettings]\<rparr>"
  by (simp add: run_def firstVisit_def handleFileUpload_def runDisabled_def truthy_def
      handleRunCorrection_def resumeRunCorrection_def newSession_def appendSession_def
      deref_def defaultSettings_def decimal.simps digit_def)

lemma uploaded_state:
  "handleFileUpload (Loaded ''data:a'' 4 4) firstVisit =
     firstVisit\<lparr>imageDimensions := (4, 4), originalImage := Some ''data:a''\<rparr>"
  by (simp add: handleFileUpload_def firstVisit_def)

section \<open>The session history\<close>

lemma take_take_cons: "take n (x # take n h) = take n (x # h)"
  by (cases n) simp_all

lemma foldl_appendSession_take:
  "foldl (\<lambda>h x. appendSession x h) (take 20 h) xs = take 20 (rev xs @ h)"
proof (induction xs arbitrary: h)
  case Nil
  show ?case by simp
next
  case (Cons x xs)
  have "appendSession x (take 20 h) = take 20 (x # h)"
    by (simp add: appendSession_def take_take_cons)
  then show ?case using Cons.IH [of "x # h"] by simp
qed

text \<open>
  Claim C4. Appending the sessions \<open>xs\<close> one after the other, the first of the list
  first, to an empty history (or to any history of at most 20 entries) leaves the 20
  latest, the newest first. The history never holds more than 20 entries; an append
  to a full history drops its last, that is oldest, entry. After 25 appends the history
  is the last 20 of them in reverse order. The history that a successful correction
  leaves is such an append of the new session.
\<close>

theorem history_newest_first_capped:
  "foldl (\<lambda>h x. appendSession x h) [] xs = take 20 (rev xs)
   \<and> (length h \<le> 20 \<longrightarrow> foldl (\<lambda>h x. appendSession x h) h xs = take 20 (rev xs @ h))
   \<and> length (appendSession x h) \<le> 20
   \<and> (length h = 20 \<longrightarrow> appendSession x h = x # butlast h)
   \<and> (length xs = 25 \<longrightarrow> foldl (\<lambda>h x. appendSession x h) [] xs = rev (drop 5 xs))
   \<and> history (resumeRunCorrection rq (Resolved img m) t1 t2 s) =
       appendSession (newSession rq img m t1 t2 s) (history s)"
proof -
  have a: "foldl (\<lambda>h x. appendSession x h) [] xs = take 20 (rev xs)"
    using foldl_appendSession_take [of "[]" xs] by simp
  have b: "length h \<le> 20 \<longrightarrow> foldl (\<lambda>h x. appendSession x h) h xs = take 20 (rev xs @ h)"
  proof
    assume "length h \<le> 20"
    then have "take 20 h = h" by simp
    then show "foldl (\<lambda>h x. appendSession x h) h xs = take 20 (rev xs @ h)"
      using foldl_appendSession_take [of h xs] by simp
  qed
  have c: "length (appendSession x h) \<le> 20"
    by (simp add: appendSession_def)
  have d: "length h = 20 \<longrightarrow> appendSession x h = x # butlast h"
    by (simp add: appendSession_def butlast_conv_take)
  have e: "length xs = 25 \<longrightarrow> foldl (\<lambda>h x. appendSession x h) [] xs = rev (drop 5 xs)"
    using a by (simp add: take_rev)
  have f: "history (resumeRunCorrection rq (Resolved img m) t1 t2 s) =
       appendSession (newSession rq img m t1 t2 s) (history s)"
    by (simp add: resumeRunCorrection_def)
  from a b c d e f show ?thesis by blast
qed

theorem history_newest_first_capped_witness:
  "foldl (\<lambda>h x. appendSession x h) []
     [1, 2, 3, 4, 5, 6, 7, 8, 9, 10, 11, 12, 13, 14, 15, 16, 17, 18, 19, 20, 21, 22, 23, 24, 25 :: nat]
   = [25, 24, 23, 22, 21, 20, 19, 18, 17, 16, 15, 14, 13, 12, 11, 10, 9, 8, 7, 6]
   \<and> appendSession 21 [20, 19, 18, 17, 16, 15, 14, 13, 12, 11, 10, 9, 8, 7, 6, 5, 4, 3, 2, 1 :: nat]
   = [21, 20, 19, 18, 17, 16, 15, 14, 13, 12, 11, 10, 9, 8, 7, 6, 5, 4, 3, 2]"
  using history_newest_first_capped
    [of "[1, 2, 3, 4, 5, 6, 7, 8, 9, 10, 11, 12, 13, 14, 15, 16, 17, 18, 19, 20, 21, 22, 23, 24, 25 :: nat]"
        "[20, 19, 18, 17, 16, 15, 14, 13, 12, 11, 10, 9, 8, 7, 6, 5, 4, 3, 2, 1 :: nat]" 21]
  by simp

section \<open>Promotion of a result to the new source\<close>

text \<open>
  Claim C10. Where no result image exists (\<^verbatim>\<open>correctedImage\<close> is \<^verbatim>\<open>null\<close>, or the
  empty string, which the handler's test takes for absent as well),
  \<^verbatim>\<open>handlePromoteToSource\<close> returns the state it was given: the original image, the
  result image, the view mode, the error message and everything else are as before.
  Where a result exists, the result becomes the original, the result is cleared and the
  view mode is Before; besides these only the error message is touched (cleared).
\<close>

theorem promote_needs_result:
  "(\<not> truthy (correctedImage s) \<longrightarrow> handlePromoteToSource s = s)
   \<and> (truthy (correctedImage s) \<longrightarrow>
        originalImage (handlePromoteToSource s) = correctedImage s
        \<and> correctedImage (handlePromoteToSource s) = None
        \<and> viewMode (handlePromoteToSource s) = Before
        \<and> handlePromoteToSource s =
            s\<lparr>originalImage := correctedImage s, correctedImage := None,
              viewMode := Before, errorMsg := None\<rparr>)"
  by (simp add: handlePromoteToSource_def)

theorem promote_needs_result_witness:
  "handlePromoteToSource firstVisit = firstVisit
   \<and> originalImage (handlePromoteToSource
        (run [FileInput (Loaded ''data:a'' 4 4), ClickRun,
              Settled (Resolved ''data:b'' someMetrics) 7 8] firstVisit)) = Some ''data:b''
   \<and> correctedImage (handlePromoteToSource
        (run [FileInput (Loaded ''data:a'' 4 4), ClickRun,
              Settled (Resolved ''data:b'' someMetrics) 7 8] firstVisit)) = None
   \<and> viewMode (handlePromoteToSource
        (run [FileInput (Loaded ''data:a'' 4 4), ClickRun,
              Settled (Resolved ''data:b'' someMetrics) 7 8] firstVisit)) = Before"
  using promote_needs_result [of firstVisit]
    promote_needs_result [of "run [FileInput (Loaded ''data:a'' 4 4), ClickRun,
              Settled (Resolved ''data:b'' someMetrics) 7 8] firstVisit"]
  by (simp add: refined_state truthy_def) (simp add: firstVisit_def)

section \<open>Loading the persisted records\<close>

lemma trySaved_Json: "getItem ls k = Inr (Some (Json v)) \<Longrightarrow> trySaved ls k = Some v"
  by (simp add: trySaved_def)

lemma trySaved_unusable: "unusable ls k \<Longrightarrow> trySaved ls k = None"
  by (auto simp add: trySaved_def unusable_def getItem_def split: localStorage.splits
      option.splits item.splits)

lemma packIds_seedPacks: "packIds (seedPacks t1 t2) = Inr (Arr [Str ''1'', Str ''2''])"
  by (simp add: seedPacks_def)

lemma map_of_setProp: "map_of (setProp kvs k v) k = Some v"
  by (induction kvs) auto

lemma getProp_setSettings:
  "getProp (deref (store (setSettings k x s)) (settings (setSettings k x s))) k = Inr x"
  by (simp add: setSettings_def deref_def map_of_setProp)

text \<open>
  A packs record that parses, but not to an array, is returned by the initialiser of
  \<^verbatim>\<open>packs\<close> as it is; the initialiser of \<^verbatim>\<open>selectedPackIds\<close> then calls
  \<^verbatim>\<open>packs.map\<close> outside its try block, which throws: there is no initial state.
\<close>

lemma initApp_null_packs: "initApp (storedPacks Null) t1 t2 = Inl TypeError"
  by (simp add: initApp_def initPacks_def initSelectedPackIds_def trySaved_def getItem_def
      storedPacks_def)

text \<open>
  Claim C1 does not hold as stated. The record of the specification's example, with
  strength 150, linePreservation -5 and the mode ''Bogus'', is stored and parses: the
  initialiser of \<^verbatim>\<open>settings\<close> returns it with strength 150 (not 100),
  linePreservation -5 (not 0) and the unknown mode, and raises no error.
\<close>

theorem stored_settings_counterexample:
  "getProp (initSettings (storedSettings (Obj
      [(''strength'', Num 150), (''linePreservation'', Num (- 5)),
       (''mode'', Str ''Bogus''), (''angleTag'', Str ''3/4 View''),
       (''scope'', Str ''Full Image''), (''absoluteLineFidelity'', Bool True)]))) ''strength''
     = Inr (Num 150)
   \<and> getProp (initSettings (storedSettings (Obj
      [(''strength'', Num 150), (''linePreservation'', Num (- 5)),
       (''mode'', Str ''Bogus''), (''angleTag'', Str ''3/4 View''),
       (''scope'', Str ''Full Image''), (''absoluteLineFidelity'', Bool True)]))) ''linePreservation''
     = Inr (Num (- 5))
   \<and> getProp (initSettings (storedSettings (Obj
      [(''strength'', Num 150), (''linePreservation'', Num (- 5)),
       (''mode'', Str ''Bogus''), (''angleTag'', Str ''3/4 View''),
       (''scope'', Str ''Full Image''), (''absoluteLineFidelity'', Bool True)]))) ''mode''
     = Inr (Str ''Bogus'')
   \<and> \<not> inRanges (initSettings (storedSettings (Obj
      [(''strength'', Num 150), (''linePreservation'', Num (- 5)),
       (''mode'', Str ''Bogus''), (''angleTag'', Str ''3/4 View''),
       (''scope'', Str ''Full Image''), (''absoluteLineFidelity'', Bool True)])))
   \<and> \<not> knownEnums (initSettings (storedSettings (Obj
      [(''strength'', Num 150), (''linePreservation'', Num (- 5)),
       (''mode'', Str ''Bogus''), (''angleTag'', Str ''3/4 View''),
       (''scope'', Str ''Full Image''), (''absoluteLineFidelity'', Bool True)])))"
  by (simp add: initSettings_def trySaved_def getItem_def storedSettings_def inRanges_def
      knownEnums_def numberIn_def oneOf_def CorrectionMode_def)

text \<open>
  Claim C1, as amended. The settings are neither clamped nor validated. A stored
  settings record that parses is taken exactly as it is stored, whatever its strength,
  linePreservation, mode, angleTag and scope; a settings edit stores the value it is
  given. The defaults, used when no stored record is usable, lie in the ranges
  [1,100] and [0,100] and carry known enum values, and stored settings that do so are
  loaded as such.
\<close>

theorem settings_taken_as_stored:
  "(getItem ls ''art_settings_v6'' = Inr (Some (Json v)) \<longrightarrow> initSettings ls = v)
   \<and> (unusable ls ''art_settings_v6'' \<longrightarrow> initSettings ls = defaultSettings)
   \<and> inRanges defaultSettings \<and> knownEnums defaultSettings
   \<and> (inRanges v \<and> knownEnums v \<longrightarrow>
        inRanges (initSettings (storedSettings v)) \<and> knownEnums (initSettings (storedSettings v)))
   \<and> getProp (deref (store (setSettings k x s)) (settings (setSettings k x s))) k = Inr x"
proof -
  have a: "getItem ls ''art_settings_v6'' = Inr (Some (Json v)) \<longrightarrow> initSettings ls = v"
    by (simp add: initSettings_def trySaved_Json)
  have b: "unusable ls ''art_settings_v6'' \<longrightarrow> initSettings ls = defaultSettings"
    by (simp add: initSettings_def trySaved_unusable)
  have c: "inRanges defaultSettings \<and> knownEnums defaultSettings"
    by (simp add: defaultSettings_def inRanges_def knownEnums_def numberIn_def oneOf_def
        CorrectionMode_def AngleTag_def AutoCorrectionScope_def)
  have "initSettings (storedSettings v) = v"
    by (simp add: initSettings_def trySaved_def getItem_def storedSettings_def)
  then have d: "inRanges v \<and> knownEnums v \<longrightarrow>
        inRanges (initSettings (storedSettings v)) \<and> knownEnums (initSettings (storedSettings v))"
    by simp
  from a b c d getProp_setSettings show ?thesis by blast
qed

theorem settings_taken_as_stored_witness:
  "initSettings (storedSettings (Obj [(''strength'', Num 150)])) = Obj [(''strength'', Num 150)]
   \<and> initSettings Unavailable = defaultSettings
   \<and> inRanges (initSettings (storedSettings defaultSettings))
   \<and> getProp (deref (store (setSettings ''strength'' (Num 150) firstVisit))
        (settings (setSettings ''strength'' (Num 150) firstVisit))) ''strength'' = Inr (Num 150)"
  using settings_taken_as_stored
    [of "storedSettings (Obj [(''strength'', Num 150)])" "Obj [(''strength'', Num 150)]"]
    settings_taken_as_stored [of Unavailable]
    settings_taken_as_stored [of _ defaultSettings]
    settings_taken_as_stored [where k = "''strength''" and x = "Num 150" and s = firstVisit]
  by (simp add: getItem_def storedSettings_def unusable_def)


text \<open>
  With the default values the first tree renders. On a storage whose accesses throw the
  initialisers fall back to the defaults, but the effect that persists the records
  throws, and so it does on a full storage. A settings record \<^verbatim>\<open>null\<close> is loaded as
  it is, and \<^verbatim>\<open>settings.scope\<close> throws in the first render.
\<close>

lemma renders_defaults:
  "renders (seedPacks t1 t2) (Arr [Str ''1'', Str ''2'']) defaultSettings"
  by (simp add: renders_def packsRender_def packRenders_def seedPacks_def defaultSettings_def)

lemma mountApp_unavailable: "mountApp Unavailable room t1 t2 = Inl SecurityError"
  by (simp add: mountApp_def initApp_def initPacks_def initSelectedPackIds_def initSettings_def
      trySaved_def getItem_def persist_def renders_defaults packIds_seedPacks deref_def)

lemma mountApp_full: "mountApp noRecords False t1 t2 = Inl QuotaExceededError"
  by (simp add: mountApp_def initApp_def initPacks_def initSelectedPackIds_def initSettings_def
      trySaved_def getItem_def persist_def renders_defaults packIds_seedPacks deref_def
      noRecords_def)

lemma mountApp_null_packs: "mountApp (storedPacks Null) room t1 t2 = Inl TypeError"
  by (simp add: mountApp_def initApp_null_packs)

lemma mountApp_null_settings: "mountApp (storedSettings Null) room t1 t2 = Inl RenderError"
  by (simp add: mountApp_def initApp_def initPacks_def initSelectedPackIds_def initSettings_def
      trySaved_def getItem_def storedSettings_def packIds_seedPacks deref_def renders_def)



section \<open>The view state\<close>

text \<open>
  Claim C2 does not hold as stated. On a first visit the component starts with the
  view mode After, not Before.
\<close>

theorem initial_view_mode_counterexample:
  "map_sum id viewMode (initApp noRecords 0 0) = Inr After
   \<and> map_sum id viewMode (initApp noRecords 0 0) \<noteq> Inr Before"
  by (simp add: initApp_noRecords firstVisit_def)

text \<open>
  Claim C2, as amended. Whatever is stored, the component starts with the view mode
  After, with no source image, no result image and an empty history. As no result
  exists, the main pane shows the placeholder of the empty source and not the
  comparison viewer, and of the three view buttons After and Overlay are disabled.
\<close>

theorem initial_view:
  "initApp ls t1 t2 = Inr s \<longrightarrow>
     viewMode s = After \<and> correctedImage s = None \<and> originalImage s = None
     \<and> history s = [] \<and> mainPane s = SourceEmpty
     \<and> viewDisabled After s \<and> viewDisabled Overlay s \<and> \<not> viewDisabled Before s"
  by (auto simp add: initApp_def Let_def mainPane_def sourcePane_def viewDisabled_def truthy_def
      split: sum.splits)

theorem initial_view_witness:
  "initApp noRecords 0 0 = Inr firstVisit \<and> viewMode firstVisit = After
   \<and> mainPane firstVisit = SourceEmpty \<and> viewDisabled After firstVisit"
  using initial_view [of noRecords 0 0 firstVisit]
  by (simp add: initApp_noRecords)

text \<open>
  Claim C3, on the code. A correction has been run and its result is shown, the view
  mode being After. An upload then discards the result and makes the uploaded image the
  source, as the claim says, but it leaves the view mode After: the view state is not
  reset to Before. In the same state \<^verbatim>\<open>handlePromoteToSource\<close>, the other handler that
  installs a new source and clears the result, does set the view mode to Before.
\<close>

theorem upload_keeps_view_mode:
  "viewMode (run [FileInput (Loaded ''data:a'' 4 4), ClickRun,
        Settled (Resolved ''data:b'' someMetrics) 7 8] firstVisit) = After
   \<and> correctedImage (run [FileInput (Loaded ''data:a'' 4 4), ClickRun,
        Settled (Resolved ''data:b'' someMetrics) 7 8] firstVisit) = Some ''data:b''
   \<and> correctedImage (handleFileUpload (Loaded ''data:c'' 2 2)
        (run [FileInput (Loaded ''data:a'' 4 4), ClickRun,
              Settled (Resolved ''data:b'' someMetrics) 7 8] firstVisit)) = None
   \<and> originalImage (handleFileUpload (Loaded ''data:c'' 2 2)
        (run [FileInput (Loaded ''data:a'' 4 4), ClickRun,
              Settled (Resolved ''data:b'' someMetrics) 7 8] firstVisit)) = Some ''data:c''
   \<and> viewMode (handleFileUpload (Loaded ''data:c'' 2 2)
        (run [FileInput (Loaded ''data:a'' 4 4), ClickRun,
              Settled (Resolved ''data:b'' someMetrics) 7 8] firstVisit)) = After
   \<and> viewMode (handlePromoteToSource
        (run [FileInput (Loaded ''data:a'' 4 4), ClickRun,
              Settled (Resolved ''data:b'' someMetrics) 7 8] firstVisit)) = Before"
  unfolding refined_state
  by (simp add: handleFileUpload_def handlePromoteToSource_def truthy_def firstVisit_def)

text \<open>
  Claim C5 does not hold as stated. In the state of a first visit no result image
  exists and the view mode is After; a click on After changes nothing, so the view mode
  remains After, not Before.
\<close>

theorem view_click_without_result_counterexample:
  "\<not> truthy (correctedImage firstVisit)
   \<and> viewMode (clickView After firstVisit) = After
   \<and> viewMode (clickView After firstVisit) \<noteq> Before"
  by (simp add: clickView_def viewDisabled_def truthy_def firstVisit_def)

text \<open>
  Claim C5, as amended. Whenever no result image exists, a click on the After or the
  Overlay button is a no-op: the button is disabled, no error is raised, and the whole
  state, the view mode with it, remains what it was (Before where it was Before).
\<close>

theorem view_click_without_result:
  "\<not> truthy (correctedImage s) \<and> m \<noteq> Before \<longrightarrow>
     clickView m s = s \<and> step (ClickView m) s = s
     \<and> viewMode (clickView m s) = viewMode s"
  by (simp add: clickView_def viewDisabled_def)

theorem view_click_without_result_witness:
  "clickView Overlay firstVisit = firstVisit
   \<and> viewMode (clickView After (clickView Before firstVisit)) = Before"
  using view_click_without_result [of firstVisit Overlay]
    view_click_without_result [of "clickView Before firstVisit" After]
  by (simp add: truthy_def firstVisit_def clickView_def viewDisabled_def)

section \<open>Running a correction\<close>

text \<open>
  Claim C6 does not hold as stated. The error of a missing image has no kind of its
  own: it is a text in \<^verbatim>\<open>errorMsg\<close>, as the error of a provider failure is. A
  provider failure whose message is that text leaves the same error message as a run
  without an image does.
\<close>

theorem no_image_message_counterexample:
  "\<not> truthy (originalImage firstVisit)
   \<and> errorMsg (fst (handleRunCorrection firstVisit)) = Some ''Upload an image first.''
   \<and> errorMsg (run [FileInput (Loaded ''data:a'' 4 4), ClickRun,
        Settled (Rejected (CorrectionFailedError ''Upload an image first.'')) 7 8] firstVisit)
       = Some ''Upload an image first.''"
  by (simp add: run_def firstVisit_def handleFileUpload_def runDisabled_def truthy_def
      handleRunCorrection_def resumeRunCorrection_def)

text \<open>
  Claim C6, as amended. Where no source image is present (\<^verbatim>\<open>originalImage\<close> is
  \<^verbatim>\<open>null\<close> or empty), \<^verbatim>\<open>handleRunCorrection\<close> issues no call of the provider and
  changes nothing but the error message, which becomes ''Upload an image first.''. That
  message differs from the one of a provider failure that carries no message of its
  own, and it equals the one of a \<^verbatim>\<open>CorrectionFailedError\<close> exactly when the provider
  supplies the same text. The run button is then disabled, and a click on it does
  nothing at all. Where a source image is present, the call is issued and the error
  message is cleared.
\<close>

theorem no_image_no_provider_call:
  "(\<not> truthy (originalImage s) \<longrightarrow>
      handleRunCorrection s = (s\<lparr>errorMsg := Some ''Upload an image first.''\<rparr>, None)
      \<and> errorMsg (fst (handleRunCorrection s)) \<noteq>
          errorMsg (resumeRunCorrection rq (Rejected OtherError) t1 t2 s')
      \<and> (errorMsg (fst (handleRunCorrection s)) =
            errorMsg (resumeRunCorrection rq (Rejected (CorrectionFailedError msg)) t1 t2 s'))
          = (msg = ''Upload an image first.'')
      \<and> step ClickRun s = s)
   \<and> (truthy (originalImage s) \<longrightarrow>
      snd (handleRunCorrection s) \<noteq> None \<and> errorMsg (fst (handleRunCorrection s)) = None)"
  by (auto simp add: handleRunCorrection_def truthy_def resumeRunCorrection_def runDisabled_def
      split: option.splits)

theorem no_image_no_provider_call_witness:
  "handleRunCorrection firstVisit = (firstVisit\<lparr>errorMsg := Some ''Upload an image first.''\<rparr>, None)
   \<and> snd (handleRunCorrection (firstVisit\<lparr>originalImage := Some []\<rparr>)) = None
   \<and> snd (handleRunCorrection (handleFileUpload (Loaded ''data:a'' 4 4) firstVisit)) \<noteq> None"
  using no_image_no_provider_call [of firstVisit]
    no_image_no_provider_call [of "firstVisit\<lparr>originalImage := Some []\<rparr>"]
    no_image_no_provider_call [of "handleFileUpload (Loaded ''data:a'' 4 4) firstVisit"]
  by (simp add: truthy_def firstVisit_def handleFileUpload_def)

text \<open>
  Claim C7. When the awaited call of the provider fails, the error message becomes the
  message of the failure if it is a \<^verbatim>\<open>CorrectionFailedError\<close>, and
  ''Refinement process interrupted.'' otherwise. \<^verbatim>\<open>isProcessing\<close> becomes false, so
  that the run button is enabled again whenever a source image is present. The history
  and the result image are as before: nothing but the error message and
  \<^verbatim>\<open>isProcessing\<close> changes. A click on the enabled run button followed by a failure
  leaves the state as it was before the click, up to the error message.
\<close>

theorem provider_failure_surfaced:
  "errorMsg (resumeRunCorrection rq (Rejected (CorrectionFailedError msg)) t1 t2 s) = Some msg
   \<and> errorMsg (resumeRunCorrection rq (Rejected OtherError) t1 t2 s) =
       Some ''Refinement process interrupted.''
   \<and> isProcessing (resumeRunCorrection rq (Rejected f) t1 t2 s) = False
   \<and> history (resumeRunCorrection rq (Rejected f) t1 t2 s) = history s
   \<and> correctedImage (resumeRunCorrection rq (Rejected f) t1 t2 s) = correctedImage s
   \<and> resumeRunCorrection rq (Rejected f) t1 t2 s =
       s\<lparr>errorMsg := errorMsg (resumeRunCorrection rq (Rejected f) t1 t2 s),
         isProcessing := False\<rparr>
   \<and> runDisabled (resumeRunCorrection rq (Rejected f) t1 t2 s) = (\<not> truthy (originalImage s))
   \<and> (activeTab s = Editor \<and> \<not> runDisabled s \<longrightarrow>
        run [ClickRun, Settled (Rejected f) t1 t2] s =
          s\<lparr>errorMsg := Some (case f of CorrectionFailedError m \<Rightarrow> m
                                | OtherError \<Rightarrow> ''Refinement process interrupted.''),
            pending := None\<rparr>
        \<and> \<not> runDisabled (run [ClickRun, Settled (Rejected f) t1 t2] s))"
  by (cases f) (auto simp add: resumeRunCorrection_def runDisabled_def run_def
      handleRunCorrection_def truthy_def split: option.splits)

theorem provider_failure_surfaced_witness:
  "run [ClickRun, Settled (Rejected (CorrectionFailedError ''Quota exceeded'')) 7 8]
     (handleFileUpload (Loaded ''data:a'' 4 4) firstVisit) =
     (handleFileUpload (Loaded ''data:a'' 4 4) firstVisit)\<lparr>errorMsg := Some ''Quota exceeded''\<rparr>
   \<and> \<not> runDisabled (run [ClickRun, Settled (Rejected (CorrectionFailedError ''Quota exceeded'')) 7 8]
     (handleFileUpload (Loaded ''data:a'' 4 4) firstVisit))"
  using provider_failure_surfaced
    [where s = "handleFileUpload (Loaded ''data:a'' 4 4) firstVisit"
       and f = "CorrectionFailedError ''Quota exceeded''" and ?t1.0 = 7 and ?t2.0 = 8]
  by (simp add: uploaded_state runDisabled_def truthy_def) (simp add: firstVisit_def)

section \<open>Sessions and the object store\<close>

text \<open>
  Every handler leaves the cells of the store as they are and at most allocates new
  ones; every address that a reachable state holds is allocated; and a session of a
  later history is a session of the earlier history or was created in between.
\<close>

lemma store_step: "prefix (store s) (store (step ev s))"
  by (cases ev)
    (auto simp add: handleFileUpload_def handleRunCorrection_def resumeRunCorrection_def newSession_def
      handlePromoteToSource_def clearHistory_def clickView_def replay_def setSettings_def
      split: upload.splits option.splits outcome.splits failure.splits)

lemma run_snoc: "run (evs @ [ev]) s = step ev (run evs s)"
  by (simp add: run_def)

lemma store_run: "prefix (store s) (store (run evs s))"
proof (induction evs rule: rev_induct)
  case Nil
  show ?case by (simp add: run_def)
next
  case (snoc ev evs)
  have "prefix (store (run evs s)) (store (step ev (run evs s)))"
    by (rule store_step)
  with snoc show ?case
    by (metis run_snoc prefix_order.trans)
qed

lemma deref_prefix: "prefix st st' \<Longrightarrow> a < length st \<Longrightarrow> deref st' a = deref st a"
  by (auto simp add: prefix_def deref_def nth_append)

lemma list_all_take: "list_all P xs \<Longrightarrow> list_all P (take n xs)"
  by (simp add: list_all_iff) (meson in_set_takeD)

lemma list_all_mono_less:
  "list_all (\<lambda>e. es_settings e < n) xs \<Longrightarrow> n \<le> m \<Longrightarrow> list_all (\<lambda>e. es_settings e < m) xs"
  by (induction xs) auto

lemma allocated_step: "allocated s \<Longrightarrow> allocated (step ev s)"
proof (cases ev)
  case (Settled out t1 t2)
  assume a: "allocated s"
  show ?thesis
  proof (cases "pending s")
    case None
    with a Settled show ?thesis by simp
  next
    case (Some rq)
    show ?thesis
    proof (cases out)
      case (Resolved img m)
      from a have h: "list_all (\<lambda>e. es_settings e < Suc (length (store s))) (history s)"
        by (auto simp add: allocated_def intro: list_all_mono_less)
      from a h Settled Some Resolved show ?thesis
        by (simp add: allocated_def resumeRunCorrection_def newSession_def appendSession_def list_all_take)
    next
      case (Rejected f)
      with a Settled Some show ?thesis
        by (cases f) (simp_all add: allocated_def resumeRunCorrection_def)
    qed
  qed
next
  case (ClickEntry i)
  assume "allocated s"
  with ClickEntry show ?thesis
    by (auto simp add: allocated_def replay_def split: option.splits)
qed (auto simp add: allocated_def handleFileUpload_def handleRunCorrection_def
      handlePromoteToSource_def clearHistory_def clickView_def setSettings_def
      split: upload.splits option.splits intro: list_all_mono_less)

lemma allocated_run: "allocated s \<Longrightarrow> allocated (run evs s)"
  by (induction evs rule: rev_induct) (simp_all add: run_def allocated_step)

lemma allocated_init: "initApp ls t1 t2 = Inr s \<Longrightarrow> allocated s"
  by (auto simp add: initApp_def Let_def allocated_def split: sum.splits)

lemma history_step:
  "x \<in> set (history (step ev s)) \<Longrightarrow> x \<in> set (history s) \<or> es_settings x = length (store s)"
  by (cases ev)
    (auto simp add: handleFileUpload_def handleRunCorrection_def resumeRunCorrection_def newSession_def
      handlePromoteToSource_def clearHistory_def clickView_def replay_def setSettings_def
      appendSession_def
      split: upload.splits option.splits outcome.splits failure.splits if_splits
      dest: in_set_takeD)

lemma history_run:
  "x \<in> set (history (run evs s)) \<Longrightarrow> x \<in> set (history s) \<or> length (store s) \<le> es_settings x"
proof (induction evs arbitrary: x rule: rev_induct)
  case Nil
  then show ?case by (simp add: run_def)
next
  case (snoc ev evs)
  from snoc.prems have "x \<in> set (history (step ev (run evs s)))"
    by (simp add: run_snoc)
  then have "x \<in> set (history (run evs s)) \<or> es_settings x = length (store (run evs s))"
    by (rule history_step)
  moreover have "length (store s) \<le> length (store (run evs s))"
    using store_run [of s evs] by (simp add: prefix_length_le)
  ultimately show ?case using snoc.IH by auto
qed


text \<open>
  Claim C8. Let a correction be pending in a state \<open>s\<close> that the component has
  reached, and let the provider answer with a result. The session \<open>e\<close> that is then put
  at the head of the history holds in its \<^verbatim>\<open>settings\<close> a new object: its address is
  neither that of the current settings nor that of the settings the run was started
  with, and its properties are those of the settings the run was started with.
  Whatever events \<open>evs\<close> follow, that object, and the settings object of every entry of
  the history, stays as it is, and every entry of the later history is an unchanged
  entry of the history or a session created later. In particular an edit of the scope
  changes the current settings, which then are an object of their own, and not the
  recorded ones.
\<close>

theorem session_settings_snapshot:
  "initApp ls u1 u2 = Inr s0 \<and> pending (run evs0 s0) = Some rq \<longrightarrow>
   (let s = run evs0 s0;
        s1 = step (Settled (Resolved img m) t1 t2) s;
        e = newSession rq img m t1 t2 s;
        s2 = run evs s1
    in history s1 = appendSession e (history s)
       \<and> es_settings e \<noteq> settings s1 \<and> es_settings e \<noteq> rq_settings rq
       \<and> deref (store s1) (es_settings e) = Obj (ownProps (deref (store s) (rq_settings rq)))
       \<and> deref (store s2) (es_settings e) = deref (store s1) (es_settings e)
       \<and> (\<forall>x \<in> set (history s1).
             deref (store s2) (es_settings x) = deref (store s1) (es_settings x))
       \<and> (\<forall>x \<in> set (history s2). x \<in> set (history s1) \<or> length (store s1) \<le> es_settings x)
       \<and> (activeTab s2 = Editor \<longrightarrow>
             getProp (deref (store (step (ChangeScope v) s2)) (settings (step (ChangeScope v) s2)))
               ''scope'' = Inr (Str v)
             \<and> settings (step (ChangeScope v) s2) \<noteq> es_settings e
             \<and> deref (store (step (ChangeScope v) s2)) (es_settings e)
                 = deref (store s1) (es_settings e)))"
proof (intro impI, elim conjE)
  assume init: "initApp ls u1 u2 = Inr s0" and pend: "pending (run evs0 s0) = Some rq"
  define s where "s = run evs0 s0"
  define s1 where "s1 = step (Settled (Resolved img m) t1 t2) s"
  define e where "e = newSession rq img m t1 t2 s"
  define s2 where "s2 = run evs s1"
  define s3 where "s3 = step (ChangeScope v) s2"
  have al: "allocated s"
    unfolding s_def using init by (intro allocated_run allocated_init)
  have al1: "allocated s1"
    unfolding s1_def using al by (rule allocated_step)
  from pend have pend': "pending s = Some rq" by (simp add: s_def)
  have s1_eq: "s1 = (resumeRunCorrection rq (Resolved img m) t1 t2 s)\<lparr>pending := None\<rparr>"
    using pend' by (simp add: s1_def)
  have e_addr: "es_settings e = length (store s)"
    by (simp add: e_def newSession_def)
  have len1: "length (store s1) = Suc (length (store s))"
    by (simp add: s1_eq resumeRunCorrection_def)
  have a: "history s1 = appendSession e (history s)"
    by (simp add: s1_eq resumeRunCorrection_def e_def)
  have b: "es_settings e \<noteq> settings s1 \<and> es_settings e \<noteq> rq_settings rq"
    using al pend' by (auto simp add: e_addr s1_eq resumeRunCorrection_def allocated_def)
  have c: "deref (store s1) (es_settings e) = Obj (ownProps (deref (store s) (rq_settings rq)))"
    by (simp add: e_addr s1_eq resumeRunCorrection_def deref_def)
  have pre2: "prefix (store s1) (store s2)"
    unfolding s2_def by (rule store_run)
  have e_lt: "es_settings e < length (store s1)"
    by (simp add: e_addr len1)
  have d: "deref (store s2) (es_settings e) = deref (store s1) (es_settings e)"
    using pre2 e_lt by (rule deref_prefix)
  have f: "\<forall>x \<in> set (history s1).
             deref (store s2) (es_settings x) = deref (store s1) (es_settings x)"
  proof
    fix x assume "x \<in> set (history s1)"
    with al1 have "es_settings x < length (store s1)"
      by (simp add: allocated_def list_all_iff)
    with pre2 show "deref (store s2) (es_settings x) = deref (store s1) (es_settings x)"
      by (rule deref_prefix)
  qed
  have g: "\<forall>x \<in> set (history s2). x \<in> set (history s1) \<or> length (store s1) \<le> es_settings x"
    unfolding s2_def using history_run by blast
  have pre3: "prefix (store s1) (store s3)"
    unfolding s3_def s2_def using store_run [of s1 "evs @ [ChangeScope v]"]
    by (simp add: run_snoc)
  have len2: "length (store s1) \<le> length (store s2)"
    using pre2 by (rule prefix_length_le)
  have h: "activeTab s2 = Editor \<longrightarrow>
             getProp (deref (store s3) (settings s3)) ''scope'' = Inr (Str v)
             \<and> settings s3 \<noteq> es_settings e
             \<and> deref (store s3) (es_settings e) = deref (store s1) (es_settings e)"
  proof
    assume ed: "activeTab s2 = Editor"
    then have s3_eq: "s3 = setSettings ''scope'' (Str v) s2"
      by (simp add: s3_def)
    have "settings s3 = length (store s2)"
      by (simp add: s3_eq setSettings_def)
    with len2 e_lt have "settings s3 \<noteq> es_settings e" by simp
    moreover have "getProp (deref (store s3) (settings s3)) ''scope'' = Inr (Str v)"
      unfolding s3_eq by (rule getProp_setSettings)
    moreover have "deref (store s3) (es_settings e) = deref (store s1) (es_settings e)"
      using pre3 e_lt by (rule deref_prefix)
    ultimately show "getProp (deref (store s3) (settings s3)) ''scope'' = Inr (Str v)
             \<and> settings s3 \<noteq> es_settings e
             \<and> deref (store s3) (es_settings e) = deref (store s1) (es_settings e)"
      by simp
  qed
  from a b c d f g h show "let s = run evs0 s0;
        s1 = step (Settled (Resolved img m) t1 t2) s;
        e = newSession rq img m t1 t2 s;
        s2 = run evs s1
    in history s1 = appendSession e (history s)
       \<and> es_settings e \<noteq> settings s1 \<and> es_settings e \<noteq> rq_settings rq
       \<and> deref (store s1) (es_settings e) = Obj (ownProps (deref (store s) (rq_settings rq)))
       \<and> deref (store s2) (es_settings e) = deref (store s1) (es_settings e)
       \<and> (\<forall>x \<in> set (history s1).
             deref (store s2) (es_settings x) = deref (store s1) (es_settings x))
       \<and> (\<forall>x \<in> set (history s2). x \<in> set (history s1) \<or> length (store s1) \<le> es_settings x)
       \<and> (activeTab s2 = Editor \<longrightarrow>
             getProp (deref (store (step (ChangeScope v) s2)) (settings (step (ChangeScope v) s2)))
               ''scope'' = Inr (Str v)
             \<and> settings (step (ChangeScope v) s2) \<noteq> es_settings e
             \<and> deref (store (step (ChangeScope v) s2)) (es_settings e)
                 = deref (store s1) (es_settings e))"
    unfolding Let_def s_def [symmetric] s1_def [symmetric] e_def [symmetric]
      s2_def [symmetric] s3_def [symmetric]
    by blast
qed


theorem session_settings_snapshot_witness:
  "initApp noRecords 0 0 = Inr firstVisit
   \<and> pending (run [FileInput (Loaded ''data:a'' 4 4), ClickRun] firstVisit) =
       Some \<lparr>rq_originalImage = ''data:a'', rq_settings = 0, rq_retrievedRefs = [],
             rq_imageDimensions = (4, 4)\<rparr>
   \<and> map es_settings (history (run [FileInput (Loaded ''data:a'' 4 4), ClickRun,
         Settled (Resolved ''data:b'' someMetrics) 7 8, ChangeStrength 10,
         ChangeScope ''Face Priority''] firstVisit)) = [1]
   \<and> deref (store (run [FileInput (Loaded ''data:a'' 4 4), ClickRun,
         Settled (Resolved ''data:b'' someMetrics) 7 8, ChangeStrength 10,
         ChangeScope ''Face Priority''] firstVisit)) 1 = defaultSettings
   \<and> settings (run [FileInput (Loaded ''data:a'' 4 4), ClickRun,
         Settled (Resolved ''data:b'' someMetrics) 7 8, ChangeStrength 10,
         ChangeScope ''Face Priority''] firstVisit) = 3
   \<and> getProp (deref (store (run [FileInput (Loaded ''data:a'' 4 4), ClickRun,
         Settled (Resolved ''data:b'' someMetrics) 7 8, ChangeStrength 10,
         ChangeScope ''Face Priority''] firstVisit)) 3) ''scope'' = Inr (Str ''Face Priority'')
   \<and> getProp (deref (store (run [FileInput (Loaded ''data:a'' 4 4), ClickRun,
         Settled (Resolved ''data:b'' someMetrics) 7 8, ChangeStrength 10,
         ChangeScope ''Face Priority''] firstVisit)) 3) ''strength'' = Inr (Num 10)"
  using session_settings_snapshot
    [of noRecords 0 0 firstVisit "[FileInput (Loaded ''data:a'' 4 4), ClickRun]"
      "\<lparr>rq_originalImage = ''data:a'', rq_settings = 0, rq_retrievedRefs = [],
        rq_imageDimensions = (4, 4)\<rparr>"
      "''data:b''" someMetrics 7 8 "[ChangeStrength 10]" "''Face Priority''"]
  by (simp add: initApp_noRecords run_def firstVisit_def handleFileUpload_def runDisabled_def
      truthy_def handleRunCorrection_def resumeRunCorrection_def newSession_def
      appendSession_def deref_def defaultSettings_def setSettings_def Let_def)

end
